theory Spec2Isabelle
  imports Complex_Main
begin

section \<open>Strings as the schemas handle them\<close>

text \<open>
  JavaScript strings are modelled as HOL strings: one \<^typ>\<open>char\<close> per code unit, for
  code units below 256. A missing (\<open>undefined\<close>) property is \<open>None\<close>.
\<close>

definition HYPHEN :: char where
  "HYPHEN = CHR ''-''"

text \<open>The character class \<open>[a-z0-9]\<close> of the slug regular expression.\<close>

definition is_slug_char :: "char \<Rightarrow> bool" where
  "is_slug_char c =
     (let n = (of_char c :: nat) in (97 \<le> n \<and> n \<le> 122) \<or> (48 \<le> n \<and> n \<le> 57))"

text \<open>
  \<open>String.prototype.toLowerCase\<close> on one code unit below 256: the letters A to Z and the
  Latin-1 capitals (192 to 222, the multiplication sign 215 apart) move up by 32.
\<close>

definition toLowerCase_char :: "char \<Rightarrow> char" where
  "toLowerCase_char c =
     (let n = (of_char c :: nat) in
      if (65 \<le> n \<and> n \<le> 90) \<or> (192 \<le> n \<and> n \<le> 222 \<and> n \<noteq> 215)
      then char_of (n + 32) else c)"

definition toLowerCase :: "string \<Rightarrow> string" where
  "toLowerCase s = map toLowerCase_char s"

text \<open>
  \<open>.replace(/[^a-z0-9]+/g, '-')\<close>: every maximal run of characters outside \<open>[a-z0-9]\<close>
  becomes one hyphen.
\<close>

function replace_runs :: "string \<Rightarrow> string" where
  "replace_runs [] = []"
| "replace_runs (c # cs) =
     (if is_slug_char c then c # replace_runs cs
      else HYPHEN # replace_runs (dropWhile (\<lambda>d. \<not> is_slug_char d) cs))"
  by pat_completeness auto
termination
  by (relation "measure length") (auto simp: length_dropWhile_le less_Suc_eq_le)

text \<open>
  \<open>.replace(/(^-|-$)/g, '')\<close>: the global match removes a hyphen at index 0 and then a
  hyphen at the last index of what is left to scan, one of each at most.
\<close>

definition strip_first :: "string \<Rightarrow> string" where
  "strip_first s = (case s of [] \<Rightarrow> [] | c # cs \<Rightarrow> if c = HYPHEN then cs else c # cs)"

definition strip_last :: "string \<Rightarrow> string" where
  "strip_last s = (if s \<noteq> [] \<and> last s = HYPHEN then butlast s else s)"

definition strip_edges :: "string \<Rightarrow> string" where
  "strip_edges s = strip_last (strip_first s)"

text \<open>
  The slug expression shared by the Category, Tag, Product and Post hooks and by
  \<open>Tag.findOrCreate\<close>:
  \<open>name.toLowerCase().replace(/[^a-z0-9]+/g, '-').replace(/(^-|-$)/g, '')\<close>.
\<close>

definition slugify :: "string \<Rightarrow> string" where
  "slugify s = strip_edges (replace_runs (toLowerCase s))"

text \<open>Shape of a string that \<open>replace_runs\<close> leaves alone: only slug characters and
  single hyphens, each hyphen followed by a slug character or by the end.\<close>

fun collapsed :: "string \<Rightarrow> bool" where
  "collapsed [] = True"
| "collapsed (c # cs) =
     (if is_slug_char c then collapsed cs
      else c = HYPHEN \<and> (case cs of [] \<Rightarrow> True | d # _ \<Rightarrow> is_slug_char d) \<and> collapsed cs)"

definition slug_alphabet :: "string \<Rightarrow> bool" where
  "slug_alphabet s = list_all (\<lambda>c. is_slug_char c \<or> c = HYPHEN) s"


subsection \<open>Whitespace, setters and number printing\<close>

text \<open>The class \<open>\s\<close>, which is also what \<open>trim()\<close> strips: tab, line feed, vertical
  tab, form feed, carriage return, space and the no-break space (160).\<close>

definition is_space :: "char \<Rightarrow> bool" where
  "is_space c = (let n = (of_char c :: nat) in (9 \<le> n \<and> n \<le> 13) \<or> n = 32 \<or> n = 160)"

definition trim :: "string \<Rightarrow> string" where
  "trim s = rev (dropWhile is_space (rev (dropWhile is_space s)))"

text \<open>The setters of a \<open>slug\<close> path (\<open>lowercase: true, trim: true\<close>), run on every
  assignment to it.\<close>

definition slug_setter :: "string \<Rightarrow> string" where
  "slug_setter v = trim (toLowerCase v)"

text \<open>A non-negative integer in a string concatenation or a template literal: its
  decimal digits.\<close>

definition digit_char :: "nat \<Rightarrow> char" where
  "digit_char k = ''0123456789'' ! k"

fun show_nat :: "nat \<Rightarrow> string" where
  "show_nat n =
     (if n < 10 then [digit_char n]
      else show_nat (n div 10) @ [digit_char (n mod 10)])"

declare show_nat.simps [simp del]

subsection \<open>Truthiness and optional chaining\<close>

text \<open>\<open>!s\<close> for a string property: missing or empty.\<close>

definition falsy_str :: "string option \<Rightarrow> bool" where
  "falsy_str v = (v = None \<or> v = Some [])"

text \<open>\<open>a || b\<close> on string properties.\<close>

definition or_str :: "string option \<Rightarrow> string option \<Rightarrow> string option" where
  "or_str a b = (if falsy_str a then b else a)"

text \<open>A string property inside a template literal or a concatenation.\<close>

definition template :: "string option \<Rightarrow> string" where
  "template v = (case v of None \<Rightarrow> ''undefined'' | Some s \<Rightarrow> s)"

text \<open>\<open>n || 0\<close> where \<open>n\<close> comes out of an optional chain.\<close>

definition or_zero :: "int option \<Rightarrow> int" where
  "or_zero v = (case v of None \<Rightarrow> 0 | Some n \<Rightarrow> if n = 0 then 0 else n)"

text \<open>\<open>b || false\<close> where \<open>b\<close> comes out of an optional chain.\<close>

definition or_false :: "bool option \<Rightarrow> bool" where
  "or_false v = (case v of None \<Rightarrow> False | Some b \<Rightarrow> b)"

text \<open>\<open>xs || []\<close>; also the elements of an array property that may be missing.\<close>

definition or_empty :: "'a list option \<Rightarrow> 'a list" where
  "or_empty v = (case v of None \<Rightarrow> [] | Some xs \<Rightarrow> xs)"

text \<open>\<open>xs?.length\<close>.\<close>

definition opt_length :: "'a list option \<Rightarrow> int option" where
  "opt_length v = map_option (\<lambda>xs. int (length xs)) v"

section \<open>Errors\<close>

text \<open>
  Modelled from the spec: the error taxonomy of its section 7. The sources under review
  define no error values of their own; a hook reports a failure by passing one to
  \<open>next\<close>, and the built-in validators report a \<open>ValidationError\<close>.
\<close>

datatype kind = required_field | length_bound | duplicate | invalid_reference | target_mismatch

datatype error = NotFound | ValidationError kind | StoreUnavailable

type_synonym objectId = nat

section \<open>Category\<close>

record category_doc =
  cat_id :: objectId
  cat_name :: string
  cat_slug :: "string option"
  parent :: "objectId option"
  ancestors :: "objectId list option"
  level :: int
  path :: "string option"
  cat_modified :: "string list"

text \<open>
  \<open>this.isModified(p)\<close>: the document carries the paths set since it was created
  or loaded. The hooks only read this list; the paths they assign themselves are not
  added to it, since no later test of a hook asks for them. Number fields are modelled
  as integers and ObjectIds as natural numbers.
\<close>

definition cat_isModified :: "string \<Rightarrow> category_doc \<Rightarrow> bool" where
  "cat_isModified p c = (p \<in> set (cat_modified c))"

text \<open>First block of \<open>categorySchema.pre('save')\<close>: the slug from the name.\<close>

definition cat_generate_slug :: "category_doc \<Rightarrow> category_doc" where
  "cat_generate_slug c =
     (if cat_isModified ''name'' c \<and> falsy_str (cat_slug c)
      then c\<lparr>cat_slug := Some (slug_setter (slugify (cat_name c)))\<rparr>
      else c)"

text \<open>Second block: ancestors, level and path, with \<open>findById\<close> as a lookup in the
  collection.\<close>

definition cat_update_hierarchy :: "(objectId \<rightharpoonup> category_doc) \<Rightarrow> category_doc \<Rightarrow> category_doc" where
  "cat_update_hierarchy store c =
     (if cat_isModified ''parent'' c then
        (case parent c of
           Some pid \<Rightarrow>
             (case store pid of
                Some parentCategory \<Rightarrow>
                  c\<lparr>ancestors := Some (or_empty (ancestors parentCategory) @ [cat_id parentCategory]),
                    level := level parentCategory + 1,
                    path := Some (template (or_str (path parentCategory) (cat_slug parentCategory))
                                  @ ''/'' @ template (cat_slug c))\<rparr>
              | None \<Rightarrow> c)
         | None \<Rightarrow> c\<lparr>ancestors := Some [], level := 0, path := cat_slug c\<rparr>)
      else c)"

text \<open>The hook ends in \<open>next()\<close> on every path: it never reports an error.\<close>

definition category_pre_save :: "(objectId \<rightharpoonup> category_doc) \<Rightarrow> category_doc \<Rightarrow> error + category_doc" where
  "category_pre_save store c = Inr (cat_update_hierarchy store (cat_generate_slug c))"

section \<open>Post\<close>

datatype reaction_type = Like | Love | Haha | Wow | Sad | Angry

datatype reaction = Reaction (reaction_user: objectId) (reaction_type: reaction_type)

datatype reply = Reply (reply_author: objectId) (reply_content: string)
  (reply_reactions: "reaction list")

datatype comment = Comment (comment_author: objectId) (comment_content: string)
  (comment_reactions: "reaction list") (comment_replies: "reply list")

record post_stats =
  views :: int
  readTime :: int
  reactionsCount :: int
  commentsCount :: int
  sharesCount :: int

record post_doc =
  title :: string
  post_slug :: "string option"
  content :: "string option"
  excerpt :: "string option"
  reactions :: "reaction list option"
  comments :: "comment list option"
  stats :: post_stats
  post_modified :: "string list"

definition post_isModified :: "string \<Rightarrow> post_doc \<Rightarrow> bool" where
  "post_isModified p d = (p \<in> set (post_modified d))"

text \<open>
  \<open>s.split(/\s+/)\<close>: the pieces between the maximal whitespace runs. A run at either
  end leaves an empty piece there, and the empty string splits into one empty piece.
\<close>

function split_ws :: "string \<Rightarrow> string list" where
  "split_ws s =
     (let w = takeWhile (\<lambda>c. \<not> is_space c) s; r = dropWhile (\<lambda>c. \<not> is_space c) s
      in if r = [] then [w] else w # split_ws (dropWhile is_space r))"
  by pat_completeness auto
termination
proof (relation "measure length")
  show "wf (measure length)" by simp
next
  fix s :: string and w r
  assume r: "r = dropWhile (\<lambda>c. \<not> is_space c) s" and ne: "r \<noteq> []"
  from r ne have "is_space (hd r)"
    using hd_dropWhile [of "\<lambda>c. \<not> is_space c" s] by auto
  with ne have "dropWhile is_space r = dropWhile is_space (tl r)"
    by (cases r) auto
  then have "length (dropWhile is_space r) \<le> length (tl r)"
    using length_dropWhile_le [of is_space "tl r"] by simp
  also from ne have "\<dots> < length r" by (cases r) auto
  also from r have "\<dots> \<le> length s" by (simp add: length_dropWhile_le)
  finally show "(dropWhile is_space r, s) \<in> measure length" by simp
qed

declare split_ws.simps [simp del]

text \<open>\<open>Math.ceil(a / b)\<close> for an integer \<open>a\<close> and a positive integer \<open>b\<close>.\<close>

definition ceil_div :: "int \<Rightarrow> int \<Rightarrow> int" where
  "ceil_div a b = - ((- a) div b)"

text \<open>The virtual \<open>wordCount\<close>.\<close>

definition wordCount :: "post_doc \<Rightarrow> int" where
  "wordCount d =
     (if falsy_str (content d) then 0
      else int (length (filter (\<lambda>word. length word > 0) (split_ws (the (content d))))))"

text \<open>\<open>postSchema.pre('save')\<close>, block by block; \<open>now\<close> is the value of
  \<open>Date.now()\<close>.\<close>

definition post_generate_slug :: "nat \<Rightarrow> post_doc \<Rightarrow> post_doc" where
  "post_generate_slug now d =
     (if post_isModified ''title'' d \<and> falsy_str (post_slug d)
      then d\<lparr>post_slug := Some (slug_setter (slugify (title d) @ ''-'' @ show_nat now))\<rparr>
      else d)"

definition post_generate_excerpt :: "post_doc \<Rightarrow> post_doc" where
  "post_generate_excerpt d =
     (if post_isModified ''content'' d \<and> falsy_str (excerpt d)
      then d\<lparr>excerpt := Some (template (map_option (take 300) (content d)) @ ''...'')\<rparr>
      else d)"

definition post_read_time :: "post_doc \<Rightarrow> post_doc" where
  "post_read_time d =
     (if post_isModified ''content'' d
      then (let wordCount = or_zero (opt_length (map_option split_ws (content d)))
            in d\<lparr>stats := (stats d)\<lparr>readTime := ceil_div wordCount 200\<rparr>\<rparr>)
      else d)"

definition post_update_counts :: "post_doc \<Rightarrow> post_doc" where
  "post_update_counts d =
     d\<lparr>stats := (stats d)\<lparr>reactionsCount := or_zero (opt_length (reactions d)),
                           commentsCount := or_zero (opt_length (comments d))\<rparr>\<rparr>"

definition post_pre_save :: "nat \<Rightarrow> post_doc \<Rightarrow> error + post_doc" where
  "post_pre_save now d =
     Inr (post_update_counts (post_read_time (post_generate_excerpt (post_generate_slug now d))))"

section \<open>Review\<close>

datatype target_type = TargetProduct | TargetPost | TargetUser | TargetOrder

datatype vote_type = Helpful | NotHelpful

datatype vote = Vote (vote_user: objectId) (vote_type: vote_type)

datatype author_type = Customer | Seller | Admin

datatype review_reply = ReviewReply (reply_by: objectId) (authorType: author_type)
  (isOfficial: bool)

datatype flag_reason = Spam | Inappropriate | Fake | Offensive | Irrelevant | Other

datatype flag = Flag (flag_user: objectId) (reason: flag_reason)

record review_doc =
  targetType :: target_type
  product :: "objectId option"
  post :: "objectId option"
  order :: "objectId option"
  targetUser :: "objectId option"
  votes :: "vote list option"
  helpfulCount :: int
  notHelpfulCount :: int
  helpfulnessScore :: int
  replies :: "review_reply list option"
  replyCount :: int
  hasSellerReply :: bool
  flags :: "flag list option"
  flagCount :: int

text \<open>\<open>reviewSchema.pre('save')\<close>: six assignments in order, then \<open>next()\<close>. The
  third reads the two counts just written.\<close>

definition review_pre_save :: "review_doc \<Rightarrow> error + review_doc" where
  "review_pre_save r =
     (let r1 = r\<lparr>helpfulCount :=
                   or_zero (opt_length (map_option (filter (\<lambda>v. vote_type v = Helpful)) (votes r)))\<rparr>;
          r2 = r1\<lparr>notHelpfulCount :=
                   or_zero (opt_length (map_option (filter (\<lambda>v. vote_type v = NotHelpful)) (votes r1)))\<rparr>;
          r3 = r2\<lparr>helpfulnessScore := helpfulCount r2 - notHelpfulCount r2\<rparr>;
          r4 = r3\<lparr>replyCount := or_zero (opt_length (replies r3))\<rparr>;
          r5 = r4\<lparr>hasSellerReply :=
                   or_false (map_option (list_ex (\<lambda>r. authorType r = Seller \<or> isOfficial r)) (replies r4))\<rparr>;
          r6 = r5\<lparr>flagCount := or_zero (opt_length (flags r5))\<rparr>
      in Inr r6)"

text \<open>
  Modelled from the spec: the condition of its \<open>validateTarget\<close>, which no function
  of the sources computes. Exactly one of the four reference fields is set, and it is
  the one named by \<open>targetType\<close>.
\<close>

definition spec_target_matches :: "review_doc \<Rightarrow> bool" where
  "spec_target_matches r =
     (case targetType r of
        TargetProduct \<Rightarrow> product r \<noteq> None \<and> post r = None \<and> targetUser r = None \<and> order r = None
      | TargetPost \<Rightarrow> product r = None \<and> post r \<noteq> None \<and> targetUser r = None \<and> order r = None
      | TargetUser \<Rightarrow> product r = None \<and> post r = None \<and> targetUser r \<noteq> None \<and> order r = None
      | TargetOrder \<Rightarrow> product r = None \<and> post r = None \<and> targetUser r = None \<and> order r \<noteq> None)"

section \<open>Numbers\<close>

text \<open>
  A schema path of type \<open>Number\<close> holds an IEEE 754 double. A finite double is
  modelled by its rational value (the two zeros are one value, which \<open>|| 0\<close> and the
  sum started at \<open>0\<close> do not tell apart); the three other values are constructors.
\<close>

datatype number = Num rat | PosInfinity | NegInfinity | NaN

text \<open>The number of binary digits of a natural number.\<close>

fun bit_length :: "nat \<Rightarrow> nat" where
  "bit_length n = (if n = 0 then 0 else Suc (bit_length (n div 2)))"

declare bit_length.simps [simp del]

text \<open>The binary exponent \<open>e\<close> of a positive rational \<open>x\<close>: \<open>2^e \<le> x < 2^(e+1)\<close>.\<close>

definition exponent :: "rat \<Rightarrow> int" where
  "exponent x =
     (if 1 \<le> x then int (bit_length (nat \<lfloor>x\<rfloor>)) - 1
      else - int (bit_length (nat (\<lceil>1 / x\<rceil> - 1))))"

definition pow2 :: "int \<Rightarrow> rat" where
  "pow2 k = (if 0 \<le> k then 2 ^ nat k else 1 / 2 ^ nat (- k))"

text \<open>Rounding to the nearest integer, a tie going to the even one.\<close>

definition round_even :: "rat \<Rightarrow> int" where
  "round_even q =
     (let f = \<lfloor>q\<rfloor>; r = q - of_int f
      in if r < 1 / 2 then f else if 1 / 2 < r then f + 1 else if even f then f else f + 1)"

text \<open>
  The double nearest to a rational (round to nearest, ties to even): 53 significant
  bits, the spacing never below \<open>2^-1074\<close>, and an infinity once the rounded value
  reaches \<open>2^1024\<close>.
\<close>

definition to_double :: "rat \<Rightarrow> number" where
  "to_double x =
     (if x = 0 then Num 0
      else (let u = pow2 (max (exponent \<bar>x\<bar>) (- 1022) - 52);
                r = of_int (round_even (x / u)) * u
            in if pow2 1024 \<le> r then PosInfinity
               else if r \<le> - pow2 1024 then NegInfinity
               else Num r))"

text \<open>The operator \<open>+\<close> on two numbers.\<close>

fun js_add :: "number \<Rightarrow> number \<Rightarrow> number" where
  "js_add NaN _ = NaN"
| "js_add _ NaN = NaN"
| "js_add PosInfinity NegInfinity = NaN"
| "js_add NegInfinity PosInfinity = NaN"
| "js_add PosInfinity _ = PosInfinity"
| "js_add _ PosInfinity = PosInfinity"
| "js_add NegInfinity _ = NegInfinity"
| "js_add _ NegInfinity = NegInfinity"
| "js_add (Num a) (Num b) = to_double (a + b)"

text \<open>\<open>x || 0\<close> where \<open>x\<close> is a number out of an optional chain: a missing value,
  zero and \<open>NaN\<close> are falsy.\<close>

definition num_or_zero :: "number option \<Rightarrow> number" where
  "num_or_zero v =
     (case v of None \<Rightarrow> Num 0 | Some x \<Rightarrow> if x = NaN \<or> x = Num 0 then Num 0 else x)"

text \<open>The comparison \<open>x >= 1\<close> of the \<open>min: 1\<close> validator.\<close>

fun at_least_one :: "number \<Rightarrow> bool" where
  "at_least_one (Num q) = (1 \<le> q)"
| "at_least_one PosInfinity = True"
| "at_least_one NegInfinity = False"
| "at_least_one NaN = False"

section \<open>Order\<close>

datatype order_item = OrderItem (item_product: objectId) (quantity: number)

record order_doc =
  items :: "order_item list option"
  itemCount :: number
  orderNumber :: "string option"
  isNew :: bool

text \<open>The virtual \<open>totalQuantity\<close>.\<close>

definition totalQuantity :: "order_doc \<Rightarrow> number" where
  "totalQuantity d =
     num_or_zero (map_option (foldl (\<lambda>sum item. js_add sum (quantity item)) (Num 0)) (items d))"

text \<open>\<open>orderSchema.pre('save')\<close>; \<open>now\<close> is \<open>Date.now()\<close> and \<open>suffix\<close> the
  upper-cased base-36 characters (nine at most) drawn from \<open>Math.random()\<close>.\<close>

definition order_pre_save :: "nat \<Rightarrow> string \<Rightarrow> order_doc \<Rightarrow> error + order_doc" where
  "order_pre_save now suffix d =
     (let d1 = d\<lparr>itemCount :=
                   num_or_zero (map_option (foldl (\<lambda>sum item. js_add sum (quantity item)) (Num 0))
                                  (items d))\<rparr>;
          d2 = (if isNew d1 \<and> falsy_str (orderNumber d1)
                then d1\<lparr>orderNumber := Some (''ORD-'' @ show_nat now @ ''-'' @ suffix)\<rparr>
                else d1)
      in Inr d2)"

text \<open>
  The built-in validation of the paths kept in \<open>order_doc\<close>, which \<open>save()\<close> runs
  ahead of the hook: \<open>orderNumber\<close> is required (an empty string does not count), and
  the quantity of every item is at least 1. The taxonomy has one kind for a violated
  bound. The required paths outside the record are taken as present.
\<close>

definition order_validate :: "order_doc \<Rightarrow> error + order_doc" where
  "order_validate d =
     (if falsy_str (orderNumber d) then Inl (ValidationError required_field)
      else if list_ex (\<lambda>item. \<not> at_least_one (quantity item)) (or_empty (items d))
      then Inl (ValidationError length_bound)
      else Inr d)"

definition order_save :: "nat \<Rightarrow> string \<Rightarrow> order_doc \<Rightarrow> error + order_doc" where
  "order_save now suffix d =
     (case order_validate d of Inl e \<Rightarrow> Inl e | Inr v \<Rightarrow> order_pre_save now suffix v)"

section \<open>Example documents\<close>

text \<open>A review that names a product as its target but carries a post reference.\<close>

definition review_post_for_product :: review_doc where
  "review_post_for_product =
     \<lparr>targetType = TargetProduct, product = None, post = Some 7, order = None, targetUser = None,
      votes = Some [], helpfulCount = 0, notHelpfulCount = 0, helpfulnessScore = 0,
      replies = Some [], replyCount = 0, hasSellerReply = False, flags = Some [], flagCount = 0\<rparr>"

text \<open>A review with three votes, two replies (one official) and one flag, its counters
  still at their defaults.\<close>

definition voted_review :: review_doc where
  "voted_review =
     \<lparr>targetType = TargetProduct, product = Some 3, post = None, order = None, targetUser = None,
      votes = Some [Vote 10 Helpful, Vote 11 NotHelpful, Vote 12 Helpful],
      helpfulCount = 0, notHelpfulCount = 0, helpfulnessScore = 0,
      replies = Some [ReviewReply 20 Customer False, ReviewReply 21 Admin True],
      replyCount = 0, hasSellerReply = False,
      flags = Some [Flag 30 Spam], flagCount = 0\<rparr>"




text \<open>A new category under the category with id 1.\<close>

definition phones_new :: category_doc where
  "phones_new =
     \<lparr>cat_id = 2, cat_name = ''Phones'', cat_slug = None, parent = Some 1,
      ancestors = Some [], level = 0, path = None, cat_modified = [''name'', ''parent'']\<rparr>"


text \<open>A new post without a slug, with two top-level comments (the first carrying a
  reaction and a reply of its own) and one top-level reaction.\<close>

definition hello_post :: post_doc where
  "hello_post =
     \<lparr>title = ''Hello World'', post_slug = None, content = Some ''hello there'', excerpt = None,
      reactions = Some [Reaction 5 Like],
      comments = Some [Comment 6 ''first'' [Reaction 7 Love, Reaction 8 Wow] [Reply 9 ''re'' [Reaction 5 Haha]],
                       Comment 7 ''second'' [] []],
      stats = \<lparr>views = 0, readTime = 0, reactionsCount = 0, commentsCount = 0, sharesCount = 0\<rparr>,
      post_modified = [''title'', ''content'']\<rparr>"






text \<open>New orders that carry their order number: two lines of quantities 2 and 3, no
  lines, two lines of quantities \<open>2^53\<close> and 1, and three lines of quantities
  \<open>2^53\<close>, 1 and 1.\<close>

definition two_line_order :: order_doc where
  "two_line_order =
     \<lparr>items = Some [OrderItem 40 (Num 2), OrderItem 41 (Num 3)], itemCount = Num 0,
      orderNumber = Some ''ORD-1700000000000-K3J9X2A7Q'', isNew = True\<rparr>"

definition empty_order :: order_doc where
  "empty_order =
     \<lparr>items = Some [], itemCount = Num 0,
      orderNumber = Some ''ORD-1700000000000-K3J9X2A7Q'', isNew = True\<rparr>"

definition huge_order :: order_doc where
  "huge_order =
     \<lparr>items = Some [OrderItem 40 (Num 9007199254740992), OrderItem 41 (Num 1)],
      itemCount = Num 0, orderNumber = Some ''ORD-1700000000000-K3J9X2A7Q'', isNew = True\<rparr>"

definition huge_order3 :: order_doc where
  "huge_order3 =
     \<lparr>items = Some [OrderItem 40 (Num 9007199254740992), OrderItem 41 (Num 1), OrderItem 42 (Num 1)],
      itemCount = Num 0, orderNumber = Some ''ORD-1700000000000-K3J9X2A7Q'', isNew = True\<rparr>"

section \<open>The slug expression\<close>

lemma hyphen_not_slug: "\<not> is_slug_char HYPHEN"
  by (simp add: is_slug_char_def HYPHEN_def)

lemma toLowerCase_char_id: "is_slug_char c \<or> c = HYPHEN \<Longrightarrow> toLowerCase_char c = c"
  by (auto simp: is_slug_char_def toLowerCase_char_def HYPHEN_def Let_def)

lemma toLowerCase_id: "slug_alphabet s \<Longrightarrow> toLowerCase s = s"
  by (induction s) (auto simp: slug_alphabet_def toLowerCase_def toLowerCase_char_id)

lemma replace_runs_id: "collapsed s \<Longrightarrow> replace_runs s = s"
proof (induction s)
  case Nil
  then show ?case by simp
next
  case (Cons c cs)
  show ?case
  proof (cases "is_slug_char c")
    case True
    with Cons show ?thesis by simp
  next
    case False
    with Cons.prems have "dropWhile (\<lambda>d. \<not> is_slug_char d) cs = cs" "c = HYPHEN" "collapsed cs"
      by (cases cs; simp)+
    with False Cons.IH show ?thesis by simp
  qed
qed

lemma hd_dropWhile_slug:
  "(case dropWhile (\<lambda>d. \<not> is_slug_char d) cs of [] \<Rightarrow> True | d # _ \<Rightarrow> is_slug_char d)"
  by (induction cs) auto

lemma replace_runs_keeps_head:
  "(case r of [] \<Rightarrow> True | d # _ \<Rightarrow> is_slug_char d) \<Longrightarrow>
   (case replace_runs r of [] \<Rightarrow> True | d # _ \<Rightarrow> is_slug_char d)"
  by (cases r) auto

lemma collapsed_replace_runs: "collapsed (replace_runs s)"
proof (induction s rule: replace_runs.induct)
  case 1
  then show ?case by simp
next
  case (2 c cs)
  show ?case
  proof (cases "is_slug_char c")
    case True
    with 2 show ?thesis by simp
  next
    case False
    let ?r = "dropWhile (\<lambda>d. \<not> is_slug_char d) cs"
    have "case replace_runs ?r of [] \<Rightarrow> True | d # _ \<Rightarrow> is_slug_char d"
      using hd_dropWhile_slug [of cs] by (rule replace_runs_keeps_head)
    with False 2 show ?thesis by (simp add: hyphen_not_slug)
  qed
qed

lemma collapsed_alphabet: "collapsed s \<Longrightarrow> slug_alphabet s"
  by (induction s) (auto simp: slug_alphabet_def split: if_splits)

lemma collapsed_strip_first: "collapsed s \<Longrightarrow> collapsed (strip_first s)"
  by (cases s) (auto simp: strip_first_def split: if_splits)

lemma collapsed_butlast: "collapsed s \<Longrightarrow> collapsed (butlast s)"
  by (induction s) (auto split: if_splits list.splits)

lemma collapsed_strip_last: "collapsed s \<Longrightarrow> collapsed (strip_last s)"
  by (simp add: strip_last_def collapsed_butlast)

lemma strip_first_head:
  "collapsed s \<Longrightarrow> (case strip_first s of [] \<Rightarrow> True | d # _ \<Rightarrow> d \<noteq> HYPHEN)"
  by (cases s) (auto simp: strip_first_def hyphen_not_slug split: if_splits list.splits)

lemma strip_last_head:
  "(case s of [] \<Rightarrow> True | d # _ \<Rightarrow> d \<noteq> HYPHEN) \<Longrightarrow>
   (case strip_last s of [] \<Rightarrow> True | d # _ \<Rightarrow> d \<noteq> HYPHEN)"
  by (cases s) (auto simp: strip_last_def split: if_splits list.splits)

lemma strip_first_id: "(case s of [] \<Rightarrow> True | d # _ \<Rightarrow> d \<noteq> HYPHEN) \<Longrightarrow> strip_first s = s"
  by (cases s) (auto simp: strip_first_def)

lemma collapsed_last_butlast:
  "collapsed s \<Longrightarrow> s \<noteq> [] \<Longrightarrow> last s = HYPHEN \<Longrightarrow> butlast s \<noteq> [] \<Longrightarrow> last (butlast s) \<noteq> HYPHEN"
  by (induction s rule: collapsed.induct) (auto simp: hyphen_not_slug split: if_splits list.splits)

lemma strip_last_idem: "collapsed s \<Longrightarrow> strip_last (strip_last s) = strip_last s"
  using collapsed_last_butlast [of s] by (auto simp: strip_last_def)

lemma collapsed_slugify: "collapsed (slugify s)"
  unfolding slugify_def strip_edges_def
  by (intro collapsed_strip_last collapsed_strip_first collapsed_replace_runs)

text \<open>
  C5. The slug expression is idempotent: lower-casing, replacing each run of characters
  outside \<open>[a-z0-9]\<close> by one hyphen and stripping the hyphens at the two ends, applied
  to its own result, returns that result.
\<close>

theorem slugify_idempotent: "slugify (slugify s) = slugify s"
proof -
  let ?t = "replace_runs (toLowerCase s)"
  let ?u = "strip_edges ?t"
  have ct: "collapsed ?t" by (rule collapsed_replace_runs)
  have cf: "collapsed (strip_first ?t)" using ct by (rule collapsed_strip_first)
  have cu: "collapsed ?u" unfolding strip_edges_def using cf by (rule collapsed_strip_last)
  have low: "toLowerCase ?u = ?u" using cu by (simp add: collapsed_alphabet toLowerCase_id)
  have rr: "replace_runs ?u = ?u" using cu by (rule replace_runs_id)
  have hd: "case ?u of [] \<Rightarrow> True | d # _ \<Rightarrow> d \<noteq> HYPHEN"
    unfolding strip_edges_def using strip_first_head [OF ct] by (rule strip_last_head)
  have sf: "strip_first ?u = ?u" using hd by (rule strip_first_id)
  have sl: "strip_last ?u = ?u" unfolding strip_edges_def using cf by (rule strip_last_idem)
  have "strip_edges ?u = ?u" unfolding strip_edges_def [of ?u] by (simp add: sf sl)
  then show ?thesis by (simp add: slugify_def low rr)
qed

section \<open>Slugs that pass the setters unchanged\<close>

lemma show_nat_example: "show_nat 1700000000000 = ''1700000000000''"
  by (simp add: show_nat.simps digit_char_def)

lemma digit_char_slug: "k < 10 \<Longrightarrow> is_slug_char (digit_char k)"
proof -
  assume k: "k < 10"
  have "list_all is_slug_char ''0123456789''" by (simp add: is_slug_char_def)
  with k show ?thesis by (simp add: digit_char_def list_all_length)
qed

lemma show_nat_alphabet: "slug_alphabet (show_nat n)"
proof (induction n rule: show_nat.induct)
  case (1 n)
  show ?case
  proof (cases "n < 10")
    case True
    then show ?thesis by (subst show_nat.simps) (simp add: slug_alphabet_def digit_char_slug)
  next
    case False
    with 1 have "slug_alphabet (show_nat (n div 10))" by simp
    moreover have "is_slug_char (digit_char (n mod 10))" by (simp add: digit_char_slug)
    ultimately show ?thesis using False by (subst show_nat.simps) (simp add: slug_alphabet_def)
  qed
qed

lemma slug_char_not_space: "is_slug_char c \<or> c = HYPHEN \<Longrightarrow> \<not> is_space c"
  by (auto simp: is_slug_char_def is_space_def HYPHEN_def Let_def)

lemma dropWhile_none: "list_all (\<lambda>c. \<not> P c) s \<Longrightarrow> dropWhile P s = s"
  by (cases s) auto

lemma trim_id: "list_all (\<lambda>c. \<not> is_space c) s \<Longrightarrow> trim s = s"
proof -
  assume a: "list_all (\<lambda>c. \<not> is_space c) s"
  then have "list_all (\<lambda>c. \<not> is_space c) (rev s)" by (simp add: list_all_iff)
  then have "dropWhile is_space (rev s) = rev s" by (rule dropWhile_none)
  with a show ?thesis by (simp add: trim_def dropWhile_none)
qed

lemma slug_setter_id: "slug_alphabet s \<Longrightarrow> slug_setter s = s"
proof -
  assume a: "slug_alphabet s"
  then have "list_all (\<lambda>c. \<not> is_space c) s"
    by (auto simp: slug_alphabet_def list_all_iff slug_char_not_space)
  with a show ?thesis by (simp add: slug_setter_def toLowerCase_id trim_id)
qed

lemma slug_alphabet_append: "slug_alphabet a \<Longrightarrow> slug_alphabet b \<Longrightarrow> slug_alphabet (a @ b)"
  by (simp add: slug_alphabet_def)

lemma slug_alphabet_slugify: "slug_alphabet (slugify s)"
  by (intro collapsed_alphabet collapsed_slugify)

lemma slug_alphabet_hyphen: "slug_alphabet ''-''"
  by (simp add: slug_alphabet_def HYPHEN_def)

lemma post_slug_text:
  "slug_setter (slugify t @ CHR ''-'' # show_nat n) = slugify t @ CHR ''-'' # show_nat n"
  using slug_setter_id [OF slug_alphabet_append [OF slug_alphabet_slugify
        slug_alphabet_append [OF slug_alphabet_hyphen show_nat_alphabet]], of t n]
  by simp

text \<open>
  C4, as the code has it. A post saved with a modified title and no slug gets the slug
  expression of its title followed by a hyphen and the decimal digits of \<open>Date.now()\<close>,
  on every such save: the hook looks at no other post, so the timestamp is not reserved
  for a collision.
\<close>

theorem post_slug_always_timestamped:
  assumes "post_isModified ''title'' d" and "falsy_str (post_slug d)"
  shows "\<exists>d'. post_pre_save now d = Inr d' \<and>
           post_slug d' = Some (slugify (title d) @ ''-'' @ show_nat now)"
  using assms
  by (simp add: post_pre_save_def post_update_counts_def post_read_time_def
      post_generate_excerpt_def post_generate_slug_def Let_def post_slug_text)

lemma hello_slug: "slugify ''Hello World'' = ''hello-world''"
  by code_simp

text \<open>
  C4 as stated fails. The claim has the timestamp appended only on a collision and the
  bare slug of the title otherwise. The hook takes no collection at all, and for the
  new post \<open>hello_post\<close> saved at time 1700000000000 the slug is
  \<open>hello-world-1700000000000\<close>, not the bare \<open>hello-world\<close>.
\<close>

theorem post_slug_counterexample:
  "post_pre_save 1700000000000 hello_post =
     Inr (hello_post\<lparr>post_slug := Some ''hello-world-1700000000000'',
                     excerpt := Some ''hello there...'',
                     stats := \<lparr>views = 0, readTime = 1, reactionsCount = 1, commentsCount = 2,
                               sharesCount = 0\<rparr>\<rparr>) \<and>
   slugify (title hello_post) = ''hello-world''"
proof -
  have t: "title hello_post = ''Hello World''" by (simp add: hello_post_def)
  have s: "slug_setter ''hello-world-1700000000000'' = ''hello-world-1700000000000''"
    by code_simp
  have w: "split_ws ''hello there'' = [''hello'', ''there'']" by code_simp
  show ?thesis
    by (simp add: post_pre_save_def post_update_counts_def post_read_time_def
      post_generate_excerpt_def post_generate_slug_def Let_def hello_post_def s w hello_slug
      post_isModified_def falsy_str_def template_def or_zero_def opt_length_def ceil_div_def show_nat_example)
qed

text \<open>C4: the amended statement at \<open>hello_post\<close>.\<close>

theorem post_slug_always_timestamped_witness:
  "\<exists>d'. post_pre_save 1700000000000 hello_post = Inr d' \<and>
        post_slug d' = Some ''hello-world-1700000000000''"
proof -
  have m: "post_isModified ''title'' hello_post" by (simp add: post_isModified_def hello_post_def)
  have f: "falsy_str (post_slug hello_post)" by (simp add: falsy_str_def hello_post_def)
  have t: "title hello_post = ''Hello World''" by (simp add: hello_post_def)
  show ?thesis
    using post_slug_always_timestamped [OF m f, of 1700000000000]
    by (simp add: t hello_slug show_nat_example)
qed

section \<open>Category hierarchy\<close>

lemma cat_generate_slug_keeps:
  "parent (cat_generate_slug c) = parent c \<and> ancestors (cat_generate_slug c) = ancestors c \<and>
   level (cat_generate_slug c) = level c \<and> path (cat_generate_slug c) = path c \<and>
   cat_modified (cat_generate_slug c) = cat_modified c"
  by (simp add: cat_generate_slug_def)



lemma hierarchy_orphan:
  "parent c = Some pid \<Longrightarrow> store pid = None \<Longrightarrow> cat_update_hierarchy store c = c"
  by (simp add: cat_update_hierarchy_def)




text \<open>
  C3, as the code has it. A save whose non-null parent id matches no stored category
  does not fail: the hook skips the recomputation and the category goes on with the
  \<open>ancestors\<close>, \<open>level\<close> and \<open>path\<close> it had.
\<close>

theorem category_missing_parent_kept:
  assumes "parent c = Some pid" and "store pid = None"
  shows "\<exists>c'. category_pre_save store c = Inr c' \<and>
           ancestors c' = ancestors c \<and> level c' = level c \<and> path c' = path c"
proof -
  have "parent (cat_generate_slug c) = Some pid" using assms(1) by (simp add: cat_generate_slug_keeps)
  then have "cat_update_hierarchy store (cat_generate_slug c) = cat_generate_slug c"
    using assms(2) by (rule hierarchy_orphan)
  then show ?thesis by (simp add: category_pre_save_def cat_generate_slug_keeps)
qed

lemma phones_slug: "slug_setter (slugify ''Phones'') = ''phones''"
  by code_simp




text \<open>
  C3 as stated fails: \<open>phones_new\<close> names parent 1, the collection is empty, and the
  save returns the category (with its new slug and nothing else changed) instead of
  the error \<open>invalid_reference\<close>.
\<close>

theorem category_missing_parent_counterexample:
  "category_pre_save Map.empty phones_new = Inr (phones_new\<lparr>cat_slug := Some ''phones''\<rparr>) \<and>
   category_pre_save Map.empty phones_new \<noteq> Inl (ValidationError invalid_reference)"
  by (simp add: category_pre_save_def cat_update_hierarchy_def cat_generate_slug_def
      cat_isModified_def falsy_str_def phones_new_def phones_slug)

text \<open>C3: the amended statement at \<open>phones_new\<close> and the empty collection.\<close>

theorem category_missing_parent_kept_witness:
  "\<exists>c'. category_pre_save Map.empty phones_new = Inr c' \<and>
        ancestors c' = Some [] \<and> level c' = 0 \<and> path c' = None"
proof -
  have p: "parent phones_new = Some 1" by (simp add: phones_new_def)
  have s: "(Map.empty :: objectId \<rightharpoonup> category_doc) 1 = None" by simp
  show ?thesis
    using category_missing_parent_kept [OF p s] by (simp add: phones_new_def)
qed




section \<open>Denormalised counters\<close>

lemma or_zero_length: "or_zero (opt_length v) = int (length (or_empty v))"
  by (cases v) (simp_all add: or_zero_def opt_length_def or_empty_def)

lemma or_empty_map_filter: "or_empty (map_option (filter P) v) = filter P (or_empty v)"
  by (cases v) (simp_all add: or_empty_def)

lemma or_false_list_ex: "or_false (map_option (list_ex P) v) = list_ex P (or_empty v)"
  by (cases v) (simp_all add: or_false_def or_empty_def)

text \<open>
  C1 as stated fails: \<open>review_post_for_product\<close> has target type product and only the
  post reference set, which the specification's condition rejects, and the hook returns
  it unchanged instead of the error \<open>target_mismatch\<close>.
\<close>

theorem review_target_counterexample:
  "\<not> spec_target_matches review_post_for_product \<and>
   review_pre_save review_post_for_product = Inr review_post_for_product \<and>
   review_pre_save review_post_for_product \<noteq> Inl (ValidationError target_mismatch)"
  by (simp add: spec_target_matches_def review_post_for_product_def review_pre_save_def
      or_zero_def opt_length_def or_false_def)

text \<open>
  C1, as the code has it. The review hook checks nothing about the target: for every
  review it succeeds and leaves \<open>targetType\<close> and the four reference fields as they
  were given.
\<close>

theorem review_pre_save_accepts_any_target:
  "\<exists>r'. review_pre_save r = Inr r' \<and> targetType r' = targetType r \<and> product r' = product r \<and>
        post r' = post r \<and> targetUser r' = targetUser r \<and> order r' = order r"
  by (simp add: review_pre_save_def Let_def)

text \<open>
  C6. After the review hook, which always succeeds and leaves the three collections as
  they were: \<open>helpfulCount\<close> and \<open>notHelpfulCount\<close> are the numbers of helpful and
  not-helpful votes, \<open>helpfulnessScore\<close> is their difference, \<open>replyCount\<close> is the
  number of replies, \<open>hasSellerReply\<close> holds exactly when some reply is by a seller or
  official, and \<open>flagCount\<close> is the number of flags. A missing or empty collection
  counts zero.
\<close>

theorem review_counters_after_save:
  "\<exists>r'. review_pre_save r = Inr r' \<and>
     votes r' = votes r \<and> replies r' = replies r \<and> flags r' = flags r \<and>
     helpfulCount r' = int (length (filter (\<lambda>v. vote_type v = Helpful) (or_empty (votes r')))) \<and>
     notHelpfulCount r' = int (length (filter (\<lambda>v. vote_type v = NotHelpful) (or_empty (votes r')))) \<and>
     helpfulnessScore r' = helpfulCount r' - notHelpfulCount r' \<and>
     replyCount r' = int (length (or_empty (replies r'))) \<and>
     hasSellerReply r' = list_ex (\<lambda>x. authorType x = Seller \<or> isOfficial x) (or_empty (replies r')) \<and>
     flagCount r' = int (length (or_empty (flags r')))"
  by (simp add: review_pre_save_def Let_def or_zero_length or_empty_map_filter or_false_list_ex)

text \<open>C6 at \<open>voted_review\<close>: two helpful votes, one not helpful, two replies of which
  one is official, one flag.\<close>

theorem review_counters_after_save_witness:
  "\<exists>r'. review_pre_save voted_review = Inr r' \<and> helpfulCount r' = 2 \<and> notHelpfulCount r' = 1 \<and>
     helpfulnessScore r' = 1 \<and> replyCount r' = 2 \<and> hasSellerReply r' \<and> flagCount r' = 1"
  using review_counters_after_save [of voted_review]
  by (auto simp: voted_review_def or_empty_def)

text \<open>
  C7. After the post hook, which always succeeds and leaves the two collections as they
  were, \<open>stats.commentsCount\<close> is the length of the top-level \<open>comments\<close> list and
  \<open>stats.reactionsCount\<close> the length of the top-level \<open>reactions\<close> list; what is
  nested inside a comment does not enter either count.
\<close>

theorem post_counts_after_save:
  "\<exists>d'. post_pre_save now d = Inr d' \<and>
     comments d' = comments d \<and> reactions d' = reactions d \<and>
     commentsCount (stats d') = int (length (or_empty (comments d'))) \<and>
     reactionsCount (stats d') = int (length (or_empty (reactions d')))"
  by (simp add: post_pre_save_def post_update_counts_def post_read_time_def
      post_generate_excerpt_def post_generate_slug_def Let_def or_zero_length)

text \<open>C7 at \<open>hello_post\<close>: two comments and one reaction at the top level, next to two
  reactions and a reply with a reaction inside the first comment.\<close>

theorem post_counts_after_save_witness:
  "\<exists>d'. post_pre_save 1700000000000 hello_post = Inr d' \<and>
     commentsCount (stats d') = 2 \<and> reactionsCount (stats d') = 1"
  using post_counts_after_save [of 1700000000000 hello_post]
  by (auto simp: hello_post_def or_empty_def)


section \<open>Order totals in double arithmetic\<close>

lemma bit_length_le: "n < 2 ^ k \<Longrightarrow> bit_length n \<le> k"
proof (induction k arbitrary: n)
  case 0
  then show ?case by (simp add: bit_length.simps)
next
  case (Suc k)
  show ?case
  proof (cases "n = 0")
    case True
    then show ?thesis by (simp add: bit_length.simps)
  next
    case False
    from Suc.prems have "n div 2 < 2 ^ k" by simp
    then have "bit_length (n div 2) \<le> k" by (rule Suc.IH)
    with False show ?thesis by (subst bit_length.simps) simp
  qed
qed

lemma bit_length_pos: "0 < n \<Longrightarrow> 0 < bit_length n"
  by (subst bit_length.simps) simp

lemma round_even_of_int: "round_even (of_int j) = j"
  by (simp add: round_even_def)

lemma pow2_neg: "pow2 (- int j) = 1 / 2 ^ j"
proof (cases "j = 0")
  case True
  then show ?thesis by (simp add: pow2_def)
next
  case False
  then have "\<not> 0 \<le> - int j" by simp
  then have "pow2 (- int j) = 1 / 2 ^ nat (- (- int j))" by (simp only: pow2_def if_False)
  then show ?thesis by simp
qed

lemma to_double_int:
  assumes "0 < m" and "m < 2 ^ 53"
  shows "to_double (of_int m) = Num (of_int m)"
proof -
  let ?L = "bit_length (nat m)"
  from assms have "nat m < 2 ^ 53" by (simp add: nat_less_iff)
  then have L53: "?L \<le> 53" by (rule bit_length_le)
  from assms have L1: "0 < ?L" by (simp add: bit_length_pos)
  have x1: "(1::rat) \<le> of_int m" using assms by simp
  have e: "exponent \<bar>of_int m\<bar> = int ?L - 1"
    using assms x1 by (simp add: exponent_def)
  have k: "max (exponent \<bar>of_int m\<bar>) (- 1022) - 52 = - int (53 - ?L)"
    using L53 L1 by (simp add: e)
  have u: "pow2 (max (exponent \<bar>of_int m\<bar>) (- 1022) - 52) = 1 / 2 ^ (53 - ?L)"
    unfolding k by (rule pow2_neg)
  have q: "(of_int m :: rat) / (1 / 2 ^ (53 - ?L)) = of_int (m * 2 ^ (53 - ?L))"
    by simp
  have r: "(of_int (round_even (of_int m / (1 / 2 ^ (53 - ?L)))) :: rat) * (1 / 2 ^ (53 - ?L)) = of_int m"
    unfolding q round_even_of_int by simp
  have big: "(2::rat) ^ 53 \<le> 2 ^ 1024" by (rule power_increasing) simp_all
  have p: "pow2 1024 = 2 ^ 1024" by (simp add: pow2_def)
  from assms have "(of_int m :: rat) < 2 ^ 53"
    by (metis of_int_less_iff of_int_numeral of_int_power)
  with big have lt: "(of_int m :: rat) < pow2 1024" unfolding p by simp
  have pos: "(0::rat) < pow2 1024" unfolding p by simp
  from assms have mpos: "(0::rat) < of_int m" by simp
  have nz: "(of_int m :: rat) \<noteq> 0" using assms by simp
  show ?thesis
    unfolding to_double_def Let_def u r using lt pos mpos nz by auto
qed

lemma to_double_nat:
  assumes "0 \<le> m" and "m < 2 ^ 53"
  shows "to_double (of_int m) = Num (of_int m)"
proof (cases "m = 0")
  case True
  then show ?thesis by (simp add: to_double_def)
next
  case False
  with assms show ?thesis by (intro to_double_int) simp_all
qed

lemma foldl_safe_integers:
  "map quantity its = map (\<lambda>n. Num (of_int n)) ns \<Longrightarrow> \<forall>n\<in>set ns. 0 \<le> n \<Longrightarrow> 0 \<le> a \<Longrightarrow>
   a + sum_list ns < 2 ^ 53 \<Longrightarrow>
   foldl (\<lambda>sum item. js_add sum (quantity item)) (Num (of_int a)) its = Num (of_int (a + sum_list ns))"
proof (induction its arbitrary: a ns)
  case Nil
  then show ?case by simp
next
  case (Cons it its)
  from Cons.prems(1) obtain n ns' where ns: "ns = n # ns'" and qn: "quantity it = Num (of_int n)"
    and rest: "map quantity its = map (\<lambda>n. Num (of_int n)) ns'"
    by (cases ns) auto
  from Cons.prems(2) ns have n0: "0 \<le> n" and all: "\<forall>n\<in>set ns'. 0 \<le> n" by simp_all
  then have s0: "0 \<le> sum_list ns'" by (simp add: sum_list_nonneg)
  from Cons.prems(3) n0 have an0: "0 \<le> a + n" by simp
  from Cons.prems(4) ns have tot: "(a + n) + sum_list ns' < 2 ^ 53" by (simp add: add.assoc)
  with s0 have an: "a + n < 2 ^ 53" by linarith
  have step: "js_add (Num (of_int a)) (quantity it) = Num (of_int (a + n))"
    using to_double_nat [OF an0 an] by (simp add: qn)
  have "foldl (\<lambda>sum item. js_add sum (quantity item)) (Num (of_int (a + n))) its =
        Num (of_int ((a + n) + sum_list ns'))"
    using rest all an0 tot by (rule Cons.IH)
  then show ?case by (simp add: step ns add.assoc)
qed

lemma num_or_zero_int: "num_or_zero (Some (Num (of_int t))) = Num (of_int t)"
  by (simp add: num_or_zero_def)

lemma order_validate_Inr:
  "order_validate d = Inr v \<Longrightarrow>
   v = d \<and> \<not> falsy_str (orderNumber d) \<and> list_all (\<lambda>item. at_least_one (quantity item)) (or_empty (items d))"
  by (auto simp: order_validate_def list_ex_iff list_all_iff split: if_splits)

lemma validated_nonneg:
  "list_all (\<lambda>item. at_least_one (quantity item)) its \<Longrightarrow>
   map quantity its = map (\<lambda>n. Num (of_int n)) ns \<Longrightarrow> \<forall>n\<in>set ns. 0 \<le> n"
proof (induction its arbitrary: ns)
  case Nil
  then show ?case by simp
next
  case (Cons it its)
  from Cons.prems(2) obtain n ns' where ns: "ns = n # ns'" and qn: "quantity it = Num (of_int n)"
    and rest: "map quantity its = map (\<lambda>n. Num (of_int n)) ns'"
    by (cases ns) auto
  from Cons.prems(1) qn have "1 \<le> n" by simp
  moreover from Cons.prems(1) rest have "\<forall>n\<in>set ns'. 0 \<le> n" by (intro Cons.IH) simp_all
  ultimately show ?case by (simp add: ns)
qed

lemma sum_safe_integers:
  assumes "list_all (\<lambda>item. at_least_one (quantity item)) (or_empty v)"
    and "map quantity (or_empty v) = map (\<lambda>n. Num (of_int n)) ns"
    and "sum_list ns < 2 ^ 53"
  shows "num_or_zero (map_option (foldl (\<lambda>sum item. js_add sum (quantity item)) (Num 0)) v) =
         Num (of_int (sum_list ns))"
proof (cases v)
  case None
  with assms(2) show ?thesis by (simp add: or_empty_def num_or_zero_def)
next
  case (Some its)
  with assms have a: "list_all (\<lambda>item. at_least_one (quantity item)) its"
    and b: "map quantity its = map (\<lambda>n. Num (of_int n)) ns"
    by (simp_all add: or_empty_def)
  from a b have nn: "\<forall>n\<in>set ns. 0 \<le> n" by (rule validated_nonneg)
  have z: "(0::int) \<le> 0" by simp
  have t: "0 + sum_list ns < 2 ^ 53" using assms(3) by simp
  have "foldl (\<lambda>sum item. js_add sum (quantity item)) (Num (of_int 0)) its =
        Num (of_int (0 + sum_list ns))"
    using b nn z t by (rule foldl_safe_integers)
  then show ?thesis using Some by (simp add: num_or_zero_int)
qed

lemma order_save_Inr:
  "order_save now suffix d = Inr d' \<Longrightarrow>
   list_all (\<lambda>item. at_least_one (quantity item)) (or_empty (items d)) \<and>
   items d' = items d \<and> orderNumber d' = orderNumber d \<and>
   itemCount d' =
     num_or_zero (map_option (foldl (\<lambda>sum item. js_add sum (quantity item)) (Num 0)) (items d))"
  by (auto simp: order_save_def order_pre_save_def Let_def dest!: order_validate_Inr
      split: sum.splits if_splits)

text \<open>
  C9, as the code has it. The hook adds the quantities from left to right in double
  arithmetic. For an order whose save goes through and whose quantities are integers
  with an exact sum below \<open>2^53\<close>, \<open>itemCount\<close> after the save is that sum (zero
  without items), and \<open>items\<close> is as it was.
\<close>

theorem order_itemCount_safe_integers:
  assumes "order_save now suffix d = Inr d'"
    and "map quantity (or_empty (items d)) = map (\<lambda>n. Num (of_int n)) ns"
    and "sum_list ns < 2 ^ 53"
  shows "items d' = items d \<and> itemCount d' = Num (of_int (sum_list ns))"
proof -
  from assms(1) have v: "list_all (\<lambda>item. at_least_one (quantity item)) (or_empty (items d))"
    and i: "items d' = items d"
    and c: "itemCount d' =
      num_or_zero (map_option (foldl (\<lambda>sum item. js_add sum (quantity item)) (Num 0)) (items d))"
    using order_save_Inr by blast+
  from v assms(2,3) have "num_or_zero (map_option (foldl (\<lambda>sum item. js_add sum (quantity item)) (Num 0)) (items d)) =
         Num (of_int (sum_list ns))"
    by (rule sum_safe_integers)
  with i c show ?thesis by simp
qed

text \<open>
  C10, as the code has it. After every save that goes through, the virtual
  \<open>totalQuantity\<close> and the stored \<open>itemCount\<close> agree; and when the quantities are
  integers with an exact sum below \<open>2^53\<close>, their common value is that sum.
\<close>

theorem order_totalQuantity_agrees:
  assumes "order_save now suffix d = Inr d'"
  shows "totalQuantity d' = itemCount d' \<and>
     (\<forall>ns. map quantity (or_empty (items d')) = map (\<lambda>n. Num (of_int n)) ns \<and> sum_list ns < 2 ^ 53 \<longrightarrow>
        totalQuantity d' = Num (of_int (sum_list ns)))"
proof -
  from assms have v: "list_all (\<lambda>item. at_least_one (quantity item)) (or_empty (items d))"
    and i: "items d' = items d"
    and c: "itemCount d' =
      num_or_zero (map_option (foldl (\<lambda>sum item. js_add sum (quantity item)) (Num 0)) (items d))"
    using order_save_Inr by blast+
  have agree: "totalQuantity d' = itemCount d'" by (simp add: totalQuantity_def i c)
  have exact: "\<forall>ns. map quantity (or_empty (items d')) = map (\<lambda>n. Num (of_int n)) ns \<and> sum_list ns < 2 ^ 53 \<longrightarrow>
        totalQuantity d' = Num (of_int (sum_list ns))"
  proof (intro allI impI)
    fix ns
    assume h: "map quantity (or_empty (items d')) = map (\<lambda>n. Num (of_int n)) ns \<and> sum_list ns < 2 ^ 53"
    then have m: "map quantity (or_empty (items d)) = map (\<lambda>n. Num (of_int n)) ns"
      and s: "sum_list ns < 2 ^ 53" by (simp_all add: i)
    from v m s show "totalQuantity d' = Num (of_int (sum_list ns))"
      unfolding totalQuantity_def i by (rule sum_safe_integers)
  qed
  from agree exact show ?thesis by (intro conjI)
qed

lemma bl54: "bit_length 9007199254740992 = 54"
  by (simp add: bit_length.simps)

lemma bl54': "bit_length 9007199254740993 = 54"
  by (simp add: bit_length.simps)

lemma pow2_1024_big: "(9007199254740992::rat) < pow2 1024"
proof -
  have "(2::rat) ^ 53 < 2 ^ 1024" by (rule power_strict_increasing) simp_all
  then show ?thesis by (simp add: pow2_def)
qed

lemma add_first: "to_double 9007199254740992 = Num 9007199254740992"
  using pow2_1024_big
  by (simp add: to_double_def exponent_def bl54 Let_def round_even_def) (simp add: pow2_def)

lemma half_floor: "\<lfloor>(9007199254740993::rat) / 2\<rfloor> = 4503599627370496"
  by (rule floor_unique) simp_all

lemma add_second: "to_double 9007199254740993 = Num 9007199254740992"
  using pow2_1024_big
  by (simp add: to_double_def exponent_def bl54' Let_def round_even_def)
     (simp add: pow2_def half_floor)

lemma huge_order_valid: "order_validate huge_order = Inr huge_order"
  by (simp add: order_validate_def huge_order_def falsy_str_def or_empty_def)

lemma huge_order3_valid: "order_validate huge_order3 = Inr huge_order3"
  by (simp add: order_validate_def huge_order3_def falsy_str_def or_empty_def)

text \<open>
  C9 as stated fails: \<open>huge_order\<close> has the quantities \<open>2^53\<close> and 1, whose sum is
  9007199254740993, and its save stores the \<open>itemCount\<close> 9007199254740992, the double
  nearest to that sum.
\<close>

theorem order_itemCount_counterexample:
  "order_save 1700000000000 ''K3J9X2A7Q'' huge_order =
     Inr (huge_order\<lparr>itemCount := Num 9007199254740992\<rparr>) \<and>
   map quantity (or_empty (items huge_order)) = [Num 9007199254740992, Num 1] \<and>
   (9007199254740992 + 1 :: rat) = 9007199254740993"
  by (simp add: order_save_def huge_order_valid order_pre_save_def Let_def)
     (simp add: huge_order_def or_empty_def falsy_str_def num_or_zero_def add_first add_second)

text \<open>
  C10 as stated fails in its second half: \<open>huge_order3\<close> has the quantities \<open>2^53\<close>,
  1 and 1, whose sum is 9007199254740994, and after its save \<open>totalQuantity\<close> (like
  \<open>itemCount\<close>) is 9007199254740992.
\<close>

theorem order_totalQuantity_counterexample:
  "order_save 1700000000000 ''K3J9X2A7Q'' huge_order3 =
     Inr (huge_order3\<lparr>itemCount := Num 9007199254740992\<rparr>) \<and>
   totalQuantity (huge_order3\<lparr>itemCount := Num 9007199254740992\<rparr>) = Num 9007199254740992 \<and>
   map quantity (or_empty (items huge_order3)) = [Num 9007199254740992, Num 1, Num 1] \<and>
   (9007199254740992 + 1 + 1 :: rat) = 9007199254740994"
  by (simp add: order_save_def huge_order3_valid order_pre_save_def Let_def totalQuantity_def)
     (simp add: huge_order3_def or_empty_def falsy_str_def num_or_zero_def add_first add_second)

lemma two_line_saved:
  "\<exists>d'. order_save 1700000000000 ''K3J9X2A7Q'' two_line_order = Inr d'"
  by (simp add: order_save_def order_validate_def order_pre_save_def Let_def two_line_order_def
      falsy_str_def or_empty_def)

lemma empty_saved:
  "\<exists>d'. order_save 1700000000000 ''K3J9X2A7Q'' empty_order = Inr d'"
  by (simp add: order_save_def order_validate_def order_pre_save_def Let_def empty_order_def
      falsy_str_def or_empty_def)

text \<open>C9: the amended statement at the two scenarios: quantities 2 and 3 give 5, no items
  give 0.\<close>

theorem order_itemCount_safe_integers_witness:
  "(\<exists>d'. order_save 1700000000000 ''K3J9X2A7Q'' two_line_order = Inr d' \<and> itemCount d' = Num 5) \<and>
   (\<exists>d'. order_save 1700000000000 ''K3J9X2A7Q'' empty_order = Inr d' \<and> itemCount d' = Num 0)"
proof -
  from two_line_saved obtain d1 where d1: "order_save 1700000000000 ''K3J9X2A7Q'' two_line_order = Inr d1" ..
  have q1: "map quantity (or_empty (items two_line_order)) = map (\<lambda>n. Num (of_int n)) [2, 3]"
    by (simp add: two_line_order_def or_empty_def)
  have s1: "sum_list [2, 3 :: int] < 2 ^ 53" by simp
  from order_itemCount_safe_integers [OF d1 q1 s1] have "itemCount d1 = Num 5" by simp
  with d1 have a: "\<exists>d'. order_save 1700000000000 ''K3J9X2A7Q'' two_line_order = Inr d' \<and> itemCount d' = Num 5"
    by (intro exI [of _ d1] conjI)
  from empty_saved obtain d2 where d2: "order_save 1700000000000 ''K3J9X2A7Q'' empty_order = Inr d2" ..
  have q2: "map quantity (or_empty (items empty_order)) = map (\<lambda>n. Num (of_int n)) []"
    by (simp add: empty_order_def or_empty_def)
  have s2: "sum_list ([] :: int list) < 2 ^ 53" by simp
  from order_itemCount_safe_integers [OF d2 q2 s2] have "itemCount d2 = Num 0" by simp
  with d2 have b: "\<exists>d'. order_save 1700000000000 ''K3J9X2A7Q'' empty_order = Inr d' \<and> itemCount d' = Num 0"
    by (intro exI [of _ d2] conjI)
  from a b show ?thesis by (intro conjI)
qed

text \<open>C10: the amended statement at the order with quantities 2 and 3.\<close>

theorem order_totalQuantity_agrees_witness:
  "\<exists>d'. order_save 1700000000000 ''K3J9X2A7Q'' two_line_order = Inr d' \<and>
     totalQuantity d' = itemCount d' \<and> totalQuantity d' = Num 5"
proof -
  from two_line_saved obtain d1 where d1: "order_save 1700000000000 ''K3J9X2A7Q'' two_line_order = Inr d1" ..
  note both = order_totalQuantity_agrees [OF d1]
  from both have agree: "totalQuantity d1 = itemCount d1" by (rule conjunct1)
  from both have exact: "\<forall>ns. map quantity (or_empty (items d1)) = map (\<lambda>n. Num (of_int n)) ns \<and>
                  sum_list ns < 2 ^ 53 \<longrightarrow> totalQuantity d1 = Num (of_int (sum_list ns))"
    by (rule conjunct2)
  have i: "items d1 = items two_line_order"
    using d1 by (auto simp: order_save_def order_validate_def order_pre_save_def Let_def
        split: if_splits)
  have "map quantity (or_empty (items d1)) = map (\<lambda>n. Num (of_int n)) [2, 3] \<and>
        sum_list [2, 3 :: int] < 2 ^ 53"
    by (simp add: i two_line_order_def or_empty_def)
  from exact [rule_format, OF this] have "totalQuantity d1 = Num 5" by simp
  with d1 agree show ?thesis by (intro exI [of _ d1] conjI)
qed

section \<open>Read time\<close>








lemma ceil_div_ceiling: "ceil_div a b = \<lceil>real_of_int a / real_of_int b\<rceil>"
  by (simp add: ceil_div_def ceiling_divide_eq_div)


lemma last_dropWhile: "dropWhile P xs \<noteq> [] \<Longrightarrow> last (dropWhile P xs) = last xs"
  by (induction xs) (auto split: if_splits)

lemma split_ws_pieces:
  "s \<noteq> [] \<Longrightarrow> \<not> is_space (hd s) \<Longrightarrow> \<not> is_space (last s) \<Longrightarrow> [] \<notin> set (split_ws s)"
proof (induction s rule: split_ws.induct)
  case (1 s)
  let ?w = "takeWhile (\<lambda>c. \<not> is_space c) s"
  let ?r = "dropWhile (\<lambda>c. \<not> is_space c) s"
  from "1.prems" have w: "?w \<noteq> []" by (cases s) auto
  show ?case
  proof (cases "?r = []")
    case True
    with w show ?thesis by (subst split_ws.simps) (simp add: Let_def)
  next
    case False
    let ?n = "dropWhile is_space ?r"
    have lr: "last ?r = last s" using False by (rule last_dropWhile)
    with "1.prems" have "\<not> is_space (last ?r)" by simp
    with False have "\<exists>x\<in>set ?r. \<not> is_space x" using last_in_set by blast
    then have n: "?n \<noteq> []" by simp
    have hn: "\<not> is_space (hd ?n)" using n by (rule hd_dropWhile)
    have "last ?n = last ?r" using n by (rule last_dropWhile)
    with lr "1.prems" have ln: "\<not> is_space (last ?n)" by simp
    have "[] \<notin> set (split_ws ?n)"
      using "1.IH" [OF refl refl False n hn ln] .
    with w False show ?thesis by (subst split_ws.simps) (simp add: Let_def)
  qed
qed

lemma filter_nonempty_id: "[] \<notin> set ws \<Longrightarrow> filter (\<lambda>word. word \<noteq> []) ws = ws"
  by (induction ws) auto

lemma post_hook_content:
  "post_pre_save now d = Inr d' \<Longrightarrow> content d' = content d"
  by (auto simp: post_pre_save_def post_update_counts_def post_read_time_def
      post_generate_excerpt_def post_generate_slug_def Let_def)

lemma post_hook_readTime:
  "post_pre_save now d = Inr d' \<Longrightarrow> post_isModified ''content'' d \<Longrightarrow>
   readTime (stats d') = ceil_div (or_zero (opt_length (map_option split_ws (content d)))) 200"
  by (auto simp: post_pre_save_def post_update_counts_def post_read_time_def
      post_generate_excerpt_def post_generate_slug_def post_isModified_def Let_def)

text \<open>
  Where the hook and the virtual meet: on content that is not empty and has no
  whitespace at either end, every piece of the split is a word, and the read time is
  the ceiling of the word count over 200.
\<close>

lemma post_readTime_trimmed_content:
  assumes "post_pre_save now d = Inr d'" and "post_isModified ''content'' d"
    and "content d = Some c" and "c \<noteq> []"
    and "\<not> is_space (hd c)" and "\<not> is_space (last c)"
  shows "readTime (stats d') = \<lceil>real_of_int (wordCount d') / 200\<rceil>"
proof -
  have pieces: "[] \<notin> set (split_ws c)"
    using assms(4-6) by (rule split_ws_pieces)
  have sp: "split_ws c \<noteq> []" by (subst split_ws.simps) (simp add: Let_def)
  have "readTime (stats d') = ceil_div (or_zero (opt_length (map_option split_ws (content d)))) 200"
    using assms(1,2) by (rule post_hook_readTime)
  also have "or_zero (opt_length (map_option split_ws (content d))) = int (length (split_ws c))"
    using sp by (simp add: assms(3) or_zero_def opt_length_def)
  also have "int (length (split_ws c)) = wordCount d'"
    using post_hook_content [OF assms(1)] assms(3,4) pieces
    by (simp add: wordCount_def falsy_str_def filter_nonempty_id)
  finally show ?thesis by (simp add: ceil_div_ceiling)
qed

end
